theory Spec2Isabelle
  imports Main
begin

section \<open>The lifecycle controller of \<open>mayaserver up\<close> (src/cmd/up.go)\<close>

text \<open>
  A shallow embedding of \<open>UpCommand.setupLoggers\<close>, \<open>UpCommand.handleReload\<close> and
  \<open>UpCommand.handleSignals\<close>. Configurations live in a store and are passed by
  address, as the Go code passes \<open>*server.MayaConfig\<close>; a dereference of \<open>nil\<close> is a
  panic of the model. The command's fields and the store are threaded through every
  function as one record. What the outside world does (signals, sends on the shutdown
  channel, the outcome of every configuration acquisition, how long the agent's
  \<open>Leave\<close> takes) is an input of the model.
\<close>

subsection \<open>Time\<close>

text \<open>\<open>time.Duration\<close> counts nanoseconds; points in time are nanoseconds too.\<close>

type_synonym Duration = int
type_synonym Time = int

definition Second :: Duration where
  "Second = 1000000000"

text \<open>\<open>const gracefulTimeout = 5 * time.Second\<close>\<close>

definition gracefulTimeout :: Duration where
  "gracefulTimeout = 5 * Second"

subsection \<open>Signals and what the two \<open>select\<close> statements can receive\<close>

text \<open>
  The four signals \<open>signal.Notify\<close> subscribes \<open>signalCh\<close> to; \<open>Interrupt\<close> is
  \<open>os.Interrupt\<close>.
\<close>

datatype Signal = Interrupt | SIGTERM | SIGHUP | SIGPIPE

text \<open>What \<open>%v\<close> prints for a signal (\<open>syscall.Signal.String\<close>).\<close>

fun Signal_String :: "Signal \<Rightarrow> string" where
  "Signal_String Interrupt = ''interrupt''"
| "Signal_String SIGTERM = ''terminated''"
| "Signal_String SIGHUP = ''hangup''"
| "Signal_String SIGPIPE = ''broken pipe''"

text \<open>
  An event of the outside world: an OS signal delivered to \<open>signalCh\<close>, or a value sent
  on \<open>c.ShutdownCh\<close>. A trace is a list of events with the time each one arrives, in
  the order of arrival. (\<open>signalCh\<close> buffers four signals; the loop takes each event
  as it arrives, so the buffer never fills.)
\<close>

datatype event = SignalEv Signal | ShutdownEv

type_synonym trace = "(Time \<times> event) list"

subsection \<open>Data\<close>

text \<open>
  \<open>server.MayaConfig\<close>: the fields up.go reads or writes. The type is declared in the
  server package; whatever else it holds is the record's extension, so a statement
  over \<open>'a MayaConfig_scheme\<close> speaks of every field.
\<close>

record MayaConfig =
  Region :: string
  Datacenter :: string
  BindAddr :: string
  DataDir :: string
  LogLevel :: string
  EnableSyslog :: bool
  SyslogFacility :: string
  LeaveOnInt :: bool
  LeaveOnTerm :: bool
  Files :: "string list"
  Revision :: string
  Version :: string
  VersionPrerelease :: string

text \<open>\<open>logutils.LevelFilter\<close>: the valid levels and the minimum level.\<close>

record LevelFilter =
  Levels :: "string list"
  MinLevel :: string

text \<open>A call of \<open>c.Ui.Output\<close>, \<open>Info\<close>, \<open>Error\<close> or \<open>Warn\<close>.\<close>

datatype ui_msg = Output string | Info string | Error string | Warn string

text \<open>
  How the agent's \<open>Leave()\<close> behaves once called: it returns after a duration, with
  \<open>nil\<close> (\<open>None\<close>) or with an error, or it never returns.
\<close>

datatype leave_behaviour = LeaveReturns Duration "string option" | LeaveHangs

record MayaServer =
  leave :: leave_behaviour
  leaveCalls :: nat

text \<open>A pointer to a configuration: \<open>nil\<close> or the index of a cell of the store.\<close>

datatype ptr = nil | addr nat

datatype panic = NilDereference

text \<open>
  The state every function threads: the fields \<open>Ui\<close> (the calls made on it so far,
  without the prefixes \<open>Run\<close> wraps around them), \<open>maya\<close> and \<open>logFilter\<close> of the
  command, the store of configurations, the number of calls of \<open>readMayaConfig\<close> made
  so far, and the time. \<open>logFilter\<close> is \<open>nil\<close> (\<open>None\<close>) until \<open>setupLoggers\<close> assigns it.
  \<open>maya\<close> is the agent \<open>setupMayaServer\<close> has stored in the command before
  \<open>handleSignals\<close> is called, with the number of calls of its \<open>Leave\<close>.
\<close>

record 'c command =
  Ui :: "ui_msg list"
  maya :: MayaServer
  logFilter :: "LevelFilter option"
  heap :: "'c list"
  reads :: nat
  now :: Time

definition ui :: "ui_msg \<Rightarrow> 'c command \<Rightarrow> 'c command" where
  "ui m c = c\<lparr>Ui := Ui c @ [m]\<rparr>"

text \<open>Reading and writing through a pointer; \<open>None\<close> is the nil-pointer panic.\<close>

fun load :: "'c list \<Rightarrow> ptr \<Rightarrow> 'c option" where
  "load h nil = None"
| "load h (addr a) = (if a < length h then Some (h ! a) else None)"

fun store :: "'c list \<Rightarrow> ptr \<Rightarrow> 'c \<Rightarrow> 'c list option" where
  "store h nil v = None"
| "store h (addr a) v = (if a < length h then Some (h[a := v]) else None)"

subsection \<open>Library functions\<close>

text \<open>
  \<open>strings.ToUpper\<close> maps every Unicode letter that has an upper case, and the tables
  it reads are not part of this file. Every function that calls it takes it as its
  first argument \<open>toUpper\<close>, so what is proved of these functions holds whatever
  \<open>strings.ToUpper\<close> returns.
\<close>

text \<open>What \<open>%v\<close> prints for a slice of levels: \<open>[TRACE DEBUG INFO]\<close>.\<close>

fun joinSpace :: "string list \<Rightarrow> string" where
  "joinSpace [] = []"
| "joinSpace [x] = x"
| "joinSpace (x # y # ys) = x @ '' '' @ joinSpace (y # ys)"

definition fmtLevels :: "string list \<Rightarrow> string" where
  "fmtLevels ls = ''['' @ joinSpace ls @ '']''"

text \<open>\<open>(*logutils.LevelFilter).SetMinLevel\<close>\<close>

definition SetMinLevel :: "LevelFilter \<Rightarrow> string \<Rightarrow> LevelFilter" where
  "SetMinLevel f m = f\<lparr>MinLevel := m\<rparr>"

text \<open>
  Modelled from the spec: \<open>server.ValidateLevelFilter\<close> is declared in the server
  package, which is not among the sources. The spec: "\<open>ValidateLevel(level, filter) -> bool\<close>:
  checks a requested log severity against the filter's known set."
\<close>

definition ValidateLevelFilter :: "string \<Rightarrow> LevelFilter \<Rightarrow> bool" where
  "ValidateLevelFilter minLevel f = (minLevel \<in> set (Levels f))"

subsection \<open>\<open>readMayaConfig\<close>\<close>

text \<open>
  \<open>readMayaConfig\<close> parses the command line, loads and merges the configuration files
  and normalises the result, all through the flag and server packages. What it
  reports on the \<open>Ui\<close> and what it returns (\<open>nil\<close>, or a configuration it has just
  built) is decided by the command line and the files, so the outcome of its n-th
  call is an input \<open>acquire n\<close> of the model. A configuration it returns is a new cell of
  the store.
\<close>

record 'c acquisition =
  reported :: "ui_msg list"
  acquired :: "'c option"

definition readMayaConfig ::
  "(nat \<Rightarrow> 'c acquisition) \<Rightarrow> 'c command \<Rightarrow> ptr \<times> 'c command" where
  "readMayaConfig acquire c =
     (let a = acquire (reads c);
          c1 = c\<lparr>Ui := Ui c @ reported a, reads := Suc (reads c)\<rparr>
      in case acquired a of
           None \<Rightarrow> (nil, c1)
         | Some cfg \<Rightarrow> (addr (length (heap c1)), c1\<lparr>heap := heap c1 @ [cfg]\<rparr>))"

subsection \<open>\<open>setupLoggers\<close>\<close>



subsection \<open>\<open>handleReload\<close>\<close>

definition handleReload ::
  "(string \<Rightarrow> string) \<Rightarrow> (nat \<Rightarrow> 'a MayaConfig_scheme acquisition) \<Rightarrow> 'a MayaConfig_scheme command \<Rightarrow> ptr
     \<Rightarrow> panic + (ptr \<times> 'a MayaConfig_scheme command)" where
  "handleReload toUpper acquire c mconfig =
     (let c1 = ui (Output ''Reloading Maya server configuration...'') c;
          (newConf, c2) = readMayaConfig acquire c1
      in if newConf = nil then
           Inr (mconfig, ui (Error ''Failed to reload config'') c2)
         else
           (case load (heap c2) newConf of
              None \<Rightarrow> Inl NilDereference
            | Some new \<Rightarrow>
                let minLevel = toUpper (LogLevel new)
                in (case logFilter c2 of
                      None \<Rightarrow> Inl NilDereference
                    | Some f \<Rightarrow>
                        if ValidateLevelFilter minLevel f then
                          Inr (newConf, c2\<lparr>logFilter := Some (SetMinLevel f minLevel)\<rparr>)
                        else
                          let c3 = ui (Error (''Invalid log level: '' @ minLevel
                                     @ ''. Valid log levels are: '' @ fmtLevels (Levels f))) c2
                          in (case load (heap c3) mconfig of
                                None \<Rightarrow> Inl NilDereference
                              | Some old \<Rightarrow>
                                  (case store (heap c3) newConf
                                          (new\<lparr>LogLevel := LogLevel old\<rparr>) of
                                     None \<Rightarrow> Inl NilDereference
                                   | Some h \<Rightarrow> Inr (newConf, c3\<lparr>heap := h\<rparr>))))))"

subsection \<open>\<open>handleSignals\<close>\<close>

text \<open>
  What a call of \<open>handleSignals\<close> comes to: it returns an exit code, it is still blocked
  in its first \<open>select\<close> when the trace ends, or it panics.
\<close>

datatype outcome = Exit int | Blocked | Panicked

text \<open>
  The second \<open>select\<close> receives from \<open>signalCh\<close>, from the timer and from \<open>gracefulCh\<close>; it
  does not receive from \<open>c.ShutdownCh\<close>. \<open>firstSignal\<close> is the time at which \<open>signalCh\<close>
  next holds a signal, if it ever does.
\<close>

fun firstSignal :: "trace \<Rightarrow> Time option" where
  "firstSignal [] = None"
| "firstSignal ((t, SignalEv s) # evs) = Some t"
| "firstSignal ((t, ShutdownEv) # evs) = firstSignal evs"

datatype select_case = SignalCh | TimeAfter | GracefulCh

text \<open>
  The \<open>select\<close> takes the case that is ready first, and returns at that time. When two
  cases become ready at the same instant Go chooses among them at random; the model
  takes the one written first.
\<close>

fun leaveSelect :: "Time option \<Rightarrow> Time \<Rightarrow> Time option \<Rightarrow> Time \<times> select_case" where
  "leaveSelect None timerAt None = (timerAt, TimeAfter)"
| "leaveSelect (Some ts) timerAt None =
     (if ts \<le> timerAt then (ts, SignalCh) else (timerAt, TimeAfter))"
| "leaveSelect None timerAt (Some tc) =
     (if timerAt \<le> tc then (timerAt, TimeAfter) else (tc, GracefulCh))"
| "leaveSelect (Some ts) timerAt (Some tc) =
     (if ts \<le> timerAt \<and> ts \<le> tc then (ts, SignalCh)
      else if timerAt \<le> tc then (timerAt, TimeAfter)
      else (tc, GracefulCh))"

text \<open>What each case of the \<open>select\<close> returns.\<close>

fun exitCode :: "select_case \<Rightarrow> int" where
  "exitCode SignalCh = 1"
| "exitCode TimeAfter = 1"
| "exitCode GracefulCh = 0"

text \<open>
  The goroutine calls \<open>c.maya.Leave()\<close> at once. If the call returns \<open>nil\<close> it closes
  \<open>gracefulCh\<close>: \<open>closedAt\<close> is when. If the call returns an error the goroutine reports
  it and leaves \<open>gracefulCh\<close> open: \<open>leaveError\<close> is when and what.
\<close>

fun closedAt :: "Time \<Rightarrow> leave_behaviour \<Rightarrow> Time option" where
  "closedAt t0 (LeaveReturns d None) = Some (t0 + d)"
| "closedAt t0 (LeaveReturns d (Some err)) = None"
| "closedAt t0 LeaveHangs = None"

fun leaveError :: "Time \<Rightarrow> leave_behaviour \<Rightarrow> (Time \<times> string) option" where
  "leaveError t0 (LeaveReturns d None) = None"
| "leaveError t0 (LeaveReturns d (Some err)) = Some (t0 + d, err)"
| "leaveError t0 LeaveHangs = None"

text \<open>
  The graceful leave: from \<open>gracefulCh := make(chan struct{})\<close> to the end of the
  function. \<open>evs\<close> is what arrives after the signal that started it. The statements
  of the function itself take no time: the timer of \<open>time.After(gracefulTimeout)\<close> and
  the call of \<open>Leave\<close> both start at the time \<open>now\<close> at which the signal was received,
  and the function returns at the time the \<open>select\<close> does. An error of \<open>Leave\<close> is
  on the \<open>Ui\<close> when the function returns if \<open>Leave\<close> returned before the \<open>select\<close>
  did.
\<close>

definition gracefulLeave :: "'c command \<Rightarrow> trace \<Rightarrow> outcome \<times> 'c command" where
  "gracefulLeave c evs =
     (let c1 = ui (Output ''Gracefully shutting Maya server...'') c;
          c2 = c1\<lparr>maya := (maya c1)\<lparr>leaveCalls := Suc (leaveCalls (maya c1))\<rparr>\<rparr>;
          t0 = now c2;
          (t, fired) = leaveSelect (firstSignal evs) (t0 + gracefulTimeout)
                         (closedAt t0 (leave (maya c2)));
          c3 = (case leaveError t0 (leave (maya c2)) of
                  None \<Rightarrow> c2
                | Some (te, err) \<Rightarrow> if te < t then ui (Error (''Error: '' @ err)) c2 else c2)
      in (Exit (exitCode fired), c3\<lparr>now := t\<rparr>))"

text \<open>What the first \<open>select\<close> leaves in \<open>sig\<close>.\<close>

fun received :: "event \<Rightarrow> Signal" where
  "received (SignalEv s) = s"
| "received ShutdownEv = Interrupt"

text \<open>The flag \<open>graceful\<close>: whether to attempt a graceful leave.\<close>

definition graceful :: "Signal \<Rightarrow> 'a MayaConfig_scheme \<Rightarrow> bool" where
  "graceful sig cfg =
     (if sig = Interrupt \<and> LeaveOnInt cfg then True
      else if sig = SIGTERM \<and> LeaveOnTerm cfg then True
      else False)"

text \<open>
  The body of \<open>if sig == syscall.SIGHUP\<close>, up to its \<open>goto WAIT\<close>: the reload, then
  the copy \<open>*mconfig = *conf\<close> of the returned configuration into the cell \<open>mconfig\<close>
  points to, under the guard \<open>conf != nil\<close>.
\<close>

definition sighup ::
  "(string \<Rightarrow> string) \<Rightarrow> (nat \<Rightarrow> 'a MayaConfig_scheme acquisition) \<Rightarrow> 'a MayaConfig_scheme command \<Rightarrow> ptr
     \<Rightarrow> panic + 'a MayaConfig_scheme command" where
  "sighup toUpper acquire c mconfig =
     (case handleReload toUpper acquire c mconfig of
        Inl p \<Rightarrow> Inl p
      | Inr (conf, c2) \<Rightarrow>
          if conf \<noteq> nil then
            (case load (heap c2) conf of
               None \<Rightarrow> Inl NilDereference
             | Some v \<Rightarrow>
                 (case store (heap c2) mconfig v of
                    None \<Rightarrow> Inl NilDereference
                  | Some h \<Rightarrow> Inr (c2\<lparr>heap := h\<rparr>)))
          else Inr c2)"

text \<open>
  The loop. Each \<open>goto WAIT\<close> is a recursive call on the rest of the trace; the first
  \<open>select\<close> receives the next event, whichever channel it is on, and a value from
  \<open>c.ShutdownCh\<close> counts as \<open>os.Interrupt\<close>.
\<close>

fun handleSignals ::
  "(string \<Rightarrow> string) \<Rightarrow> (nat \<Rightarrow> 'a MayaConfig_scheme acquisition) \<Rightarrow> 'a MayaConfig_scheme command \<Rightarrow> ptr \<Rightarrow> trace
     \<Rightarrow> outcome \<times> 'a MayaConfig_scheme command" where
  "handleSignals toUpper acquire c mconfig [] = (Blocked, c)"
| "handleSignals toUpper acquire c mconfig ((t, ev) # evs) =
     (let sig = received ev;
          c1 = ui (Output (''Caught signal: '' @ Signal_String sig)) (c\<lparr>now := t\<rparr>)
      in if sig = SIGPIPE then handleSignals toUpper acquire c1 mconfig evs
         else if sig = SIGHUP then
           (case sighup toUpper acquire c1 mconfig of
              Inl p \<Rightarrow> (Panicked, c1)
            | Inr c2 \<Rightarrow> handleSignals toUpper acquire c2 mconfig evs)
         else
           (case load (heap c1) mconfig of
              None \<Rightarrow> (Panicked, c1)
            | Some cfg \<Rightarrow>
                if \<not> graceful sig cfg then (Exit 1, c1)
                else gracefulLeave c1 evs))"

subsection \<open>The invariant of the log filter\<close>


subsection \<open>States that differ in what was written to the \<open>Ui\<close>\<close>

text \<open>
  Two states of the command that agree on the agent, the filter, the store and the
  count of acquisitions: they may differ in the \<open>Ui\<close> and in the time.
\<close>

definition sameButUi :: "'c command \<Rightarrow> 'c command \<Rightarrow> bool" where
  "sameButUi c c' =
     (maya c = maya c' \<and> logFilter c = logFilter c' \<and> heap c = heap c' \<and> reads c = reads c')"

subsection \<open>Example inputs\<close>

text \<open>
  A configuration that leaves gracefully on an interrupt and not on a terminate, a
  filter with five levels, a command whose store holds one configuration at address 0,
  and two acquisitions: one that fails and one that succeeds.
\<close>

definition exampleConfig :: MayaConfig where
  "exampleConfig =
     \<lparr>Region = ''global'', Datacenter = ''dc1'', BindAddr = ''127.0.0.1'', DataDir = [],
      LogLevel = ''INFO'', EnableSyslog = False, SyslogFacility = ''LOCAL0'',
      LeaveOnInt = True, LeaveOnTerm = False, Files = [], Revision = ''abc'',
      Version = ''0.1'', VersionPrerelease = ''dev''\<rparr>"

definition exampleFilter :: LevelFilter where
  "exampleFilter =
     \<lparr>Levels = [''TRACE'', ''DEBUG'', ''INFO'', ''WARN'', ''ERR''], MinLevel = ''INFO''\<rparr>"

definition exampleCommand :: "leave_behaviour \<Rightarrow> MayaConfig \<Rightarrow> MayaConfig command" where
  "exampleCommand l cfg =
     \<lparr>Ui = [], maya = \<lparr>leave = l, leaveCalls = 0\<rparr>, logFilter = Some exampleFilter,
      heap = [cfg], reads = 0, now = 0\<rparr>"

text \<open>
  For the examples, whose level names are ASCII: on a string of ASCII bytes
  \<open>strings.ToUpper\<close> maps each of the letters a to z to its capital and leaves every other
  byte as it is.
\<close>

definition toUpperByte :: "char \<Rightarrow> char" where
  "toUpperByte ch =
     (case map_of (zip ''abcdefghijklmnopqrstuvwxyz'' ''ABCDEFGHIJKLMNOPQRSTUVWXYZ'') ch of
        Some u \<Rightarrow> u
      | None \<Rightarrow> ch)"

definition upperASCII :: "string \<Rightarrow> string" where
  "upperASCII s = map toUpperByte s"

definition failing :: "nat \<Rightarrow> MayaConfig acquisition" where
  "failing n = \<lparr>reported = [Error ''data-dir must be given as an absolute path: got tmp''],
                acquired = None\<rparr>"

definition succeeding :: "MayaConfig \<Rightarrow> nat \<Rightarrow> MayaConfig acquisition" where
  "succeeding cfg n = \<lparr>reported = [], acquired = Some cfg\<rparr>"

section \<open>Properties\<close>

subsection \<open>Auxiliary facts\<close>

lemma received_interrupt:
  "ev = SignalEv Interrupt \<or> ev = ShutdownEv \<Longrightarrow> received ev = Interrupt"
  by auto

lemma graceful_terminating:
  "graceful sig cfg \<Longrightarrow> sig \<noteq> SIGPIPE \<and> sig \<noteq> SIGHUP"
  by (auto simp: graceful_def split: if_splits)

lemma load_append:
  "load h p = Some v \<Longrightarrow> load (h @ [w]) p = Some v"
  by (cases p) (auto simp: nth_append split: if_splits)

text \<open>The three ways a reload ends when it does not panic.\<close>

lemma handleReload_failed:
  assumes "acquired (acquire (reads c)) = None"
  shows "handleReload toUpper acquire c mconfig =
           Inr (mconfig,
                c\<lparr>Ui := Ui c @ [Output ''Reloading Maya server configuration...'']
                          @ reported (acquire (reads c)) @ [Error ''Failed to reload config''],
                  reads := Suc (reads c)\<rparr>)"
  using assms by (simp add: handleReload_def readMayaConfig_def ui_def Let_def)

lemma handleReload_valid:
  assumes "acquired (acquire (reads c)) = Some new"
    and "logFilter c = Some f"
    and "ValidateLevelFilter (toUpper (LogLevel new)) f"
  shows "handleReload toUpper acquire c mconfig =
           Inr (addr (length (heap c)),
                c\<lparr>Ui := Ui c @ [Output ''Reloading Maya server configuration...'']
                          @ reported (acquire (reads c)),
                  reads := Suc (reads c),
                  heap := heap c @ [new],
                  logFilter := Some (f\<lparr>MinLevel := toUpper (LogLevel new)\<rparr>)\<rparr>)"
  using assms
  by (simp add: handleReload_def readMayaConfig_def ui_def Let_def SetMinLevel_def)

lemma handleReload_invalid:
  assumes "acquired (acquire (reads c)) = Some new"
    and "logFilter c = Some f"
    and "\<not> ValidateLevelFilter (toUpper (LogLevel new)) f"
    and "load (heap c) mconfig = Some old"
  shows "handleReload toUpper acquire c mconfig =
           Inr (addr (length (heap c)),
                c\<lparr>Ui := Ui c @ [Output ''Reloading Maya server configuration...'']
                          @ reported (acquire (reads c))
                          @ [Error (''Invalid log level: '' @ toUpper (LogLevel new)
                               @ ''. Valid log levels are: '' @ fmtLevels (Levels f))],
                  reads := Suc (reads c),
                  heap := heap c @ [new\<lparr>LogLevel := LogLevel old\<rparr>]\<rparr>)"
  using assms load_append [OF assms(4), of new]
  by (simp add: handleReload_def readMayaConfig_def ui_def Let_def)

text \<open>The same three cases for the whole \<open>SIGHUP\<close> branch, copy included.\<close>

lemma sighup_failed:
  assumes "acquired (acquire (reads c)) = None"
    and "load (heap c) mconfig = Some old"
  shows "sighup toUpper acquire c mconfig =
           Inr (c\<lparr>Ui := Ui c @ [Output ''Reloading Maya server configuration...'']
                          @ reported (acquire (reads c)) @ [Error ''Failed to reload config''],
                  reads := Suc (reads c)\<rparr>)"
proof (cases mconfig)
  case nil
  with assms(2) show ?thesis by simp
next
  case (addr a)
  with assms(2) have a: "a < length (heap c)" and old: "heap c ! a = old"
    by (auto split: if_splits)
  show ?thesis
    using a assms(1) by (simp add: sighup_def handleReload_failed addr)
qed

lemma sighup_invalid:
  assumes "acquired (acquire (reads c)) = Some new"
    and "logFilter c = Some f"
    and "\<not> ValidateLevelFilter (toUpper (LogLevel new)) f"
    and "load (heap c) (addr a) = Some old"
  shows "sighup toUpper acquire c (addr a) =
           Inr (c\<lparr>Ui := Ui c @ [Output ''Reloading Maya server configuration...'']
                          @ reported (acquire (reads c))
                          @ [Error (''Invalid log level: '' @ toUpper (LogLevel new)
                               @ ''. Valid log levels are: '' @ fmtLevels (Levels f))],
                  reads := Suc (reads c),
                  heap := (heap c)[a := new\<lparr>LogLevel := LogLevel old\<rparr>]
                            @ [new\<lparr>LogLevel := LogLevel old\<rparr>]\<rparr>)"
proof -
  from assms(4) have a: "a < length (heap c)"
    by (auto split: if_splits)
  show ?thesis
    using a assms by (simp add: sighup_def handleReload_invalid list_update_append)
qed

lemma sighup_valid:
  assumes "acquired (acquire (reads c)) = Some new"
    and "logFilter c = Some f"
    and "ValidateLevelFilter (toUpper (LogLevel new)) f"
    and "load (heap c) (addr a) = Some old"
  shows "sighup toUpper acquire c (addr a) =
           Inr (c\<lparr>Ui := Ui c @ [Output ''Reloading Maya server configuration...'']
                          @ reported (acquire (reads c)),
                  reads := Suc (reads c),
                  heap := (heap c)[a := new] @ [new],
                  logFilter := Some (f\<lparr>MinLevel := toUpper (LogLevel new)\<rparr>)\<rparr>)"
proof -
  from assms(4) have a: "a < length (heap c)"
    by (auto split: if_splits)
  show ?thesis
    using a assms by (simp add: sighup_def handleReload_valid list_update_append)
qed

text \<open>One turn of the loop on a hangup, and on a signal that starts a graceful leave.\<close>

lemma handleSignals_sighup:
  "handleSignals toUpper acquire c mconfig ((t, SignalEv SIGHUP) # evs) =
     (case sighup toUpper acquire
             (c\<lparr>now := t, Ui := Ui c @ [Output ''Caught signal: hangup'']\<rparr>) mconfig of
        Inl p \<Rightarrow> (Panicked, c\<lparr>now := t, Ui := Ui c @ [Output ''Caught signal: hangup'']\<rparr>)
      | Inr c2 \<Rightarrow> handleSignals toUpper acquire c2 mconfig evs)"
  by (simp add: Let_def ui_def split: sum.split)

lemma handleSignals_graceful:
  assumes "load (heap c) mconfig = Some cfg"
    and "graceful (received ev) cfg"
  shows "handleSignals toUpper acquire c mconfig ((t, ev) # evs) =
           gracefulLeave
             (c\<lparr>now := t,
                Ui := Ui c @ [Output (''Caught signal: '' @ Signal_String (received ev))]\<rparr>)
             evs"
  using assms graceful_terminating [OF assms(2)]
  by (simp add: Let_def ui_def)






text \<open>A send on the shutdown channel is invisible to the second \<open>select\<close>.\<close>

lemma gracefulLeave_ignores_shutdown:
  "gracefulLeave c ((t, ShutdownEv) # evs) = gracefulLeave c evs"
  by (simp add: gracefulLeave_def)

subsection \<open>A send on the shutdown channel during a graceful leave\<close>

text \<open>
  C1. The claim: a send on the shutdown channel while a graceful leave is under way
  acts as a second OS signal does, and ends the race at once with exit code 1. The
  second \<open>select\<close> has no case for \<open>c.ShutdownCh\<close>. With \<open>LeaveOnInt\<close> set and a
  \<open>Leave\<close> that takes two seconds, a first send at time 0 starts the leave and a second
  send after one second is not received: \<open>handleSignals\<close> returns 0 after two seconds.
  An OS interrupt in place of the second send makes it return 1 after one second.
\<close>

theorem shutdown_send_during_leave_is_not_received:
  "handleSignals toUpper failing (exampleCommand (LeaveReturns (2 * Second) None) exampleConfig) (addr 0)
     [(0, ShutdownEv), (Second, ShutdownEv)]
   = (Exit 0,
      (exampleCommand (LeaveReturns (2 * Second) None) exampleConfig)
        \<lparr>now := 2 * Second,
          Ui := [Output ''Caught signal: interrupt'',
                 Output ''Gracefully shutting Maya server...''],
          maya := \<lparr>leave = LeaveReturns (2 * Second) None, leaveCalls = 1\<rparr>\<rparr>)
   \<and> handleSignals toUpper failing (exampleCommand (LeaveReturns (2 * Second) None) exampleConfig) (addr 0)
     [(0, ShutdownEv), (Second, SignalEv Interrupt)]
   = (Exit 1,
      (exampleCommand (LeaveReturns (2 * Second) None) exampleConfig)
        \<lparr>now := Second,
          Ui := [Output ''Caught signal: interrupt'',
                 Output ''Gracefully shutting Maya server...''],
          maya := \<lparr>leave = LeaveReturns (2 * Second) None, leaveCalls = 1\<rparr>\<rparr>)"
  by (simp add: exampleCommand_def exampleConfig_def graceful_def gracefulLeave_def
      gracefulTimeout_def Second_def ui_def Let_def)

subsection \<open>Reload with an invalid log level\<close>

text \<open>
  C2. When a reload acquires a configuration whose log level fails validation, the
  \<open>SIGHUP\<close> branch leaves in the cell of the active configuration the acquired
  configuration with its log level replaced by the one the active configuration had
  before, and leaves the log filter as it was.
\<close>

theorem reload_invalid_level_rolls_back_level_only:
  assumes "load (heap c) (addr a) = Some old"
    and "logFilter c = Some f"
    and "acquired (acquire (reads c)) = Some new"
    and "\<not> ValidateLevelFilter (toUpper (LogLevel new)) f"
  shows "\<exists>c'. sighup toUpper acquire c (addr a) = Inr c'
            \<and> load (heap c') (addr a) = Some (new\<lparr>LogLevel := LogLevel old\<rparr>)
            \<and> logFilter c' = Some f"
proof -
  from assms(1) have a: "a < length (heap c)"
    by (auto split: if_splits)
  show ?thesis
    using a assms by (simp add: sighup_invalid nth_append)
qed

theorem reload_invalid_level_rolls_back_level_only_witness:
  "sighup upperASCII (succeeding (exampleConfig\<lparr>LogLevel := ''verbose'', Region := ''eu''\<rparr>))
      (exampleCommand LeaveHangs (exampleConfig\<lparr>LogLevel := ''warn''\<rparr>)) (addr 0)
   = Inr ((exampleCommand LeaveHangs (exampleConfig\<lparr>LogLevel := ''warn''\<rparr>))
        \<lparr>Ui := [Output ''Reloading Maya server configuration...'',
                Error ''Invalid log level: VERBOSE. Valid log levels are: [TRACE DEBUG INFO WARN ERR]''],
          reads := 1,
          heap := [exampleConfig\<lparr>LogLevel := ''warn'', Region := ''eu''\<rparr>,
                   exampleConfig\<lparr>LogLevel := ''warn'', Region := ''eu''\<rparr>]\<rparr>)"
proof -
  let ?new = "exampleConfig\<lparr>LogLevel := ''verbose'', Region := ''eu''\<rparr>"
  let ?old = "exampleConfig\<lparr>LogLevel := ''warn''\<rparr>"
  let ?c = "exampleCommand LeaveHangs ?old"
  have h1: "load (heap ?c) (addr 0) = Some ?old"
    by (simp add: exampleCommand_def)
  have h2: "logFilter ?c = Some exampleFilter"
    by (simp add: exampleCommand_def)
  have h3: "acquired (succeeding ?new (reads ?c)) = Some ?new"
    by (simp add: succeeding_def)
  have h4: "\<not> ValidateLevelFilter (upperASCII (LogLevel ?new)) exampleFilter"
    by (simp add: ValidateLevelFilter_def exampleFilter_def upperASCII_def toUpperByte_def)
  from reload_invalid_level_rolls_back_level_only
         [where toUpper = upperASCII and acquire = "succeeding ?new" and c = ?c, OF h1 h2 h3 h4]
  obtain c' where "sighup upperASCII (succeeding ?new) ?c (addr 0) = Inr c'" by blast
  then show ?thesis
    by (simp add: sighup_def handleReload_def readMayaConfig_def Let_def ui_def
        succeeding_def exampleCommand_def exampleFilter_def exampleConfig_def
        ValidateLevelFilter_def upperASCII_def toUpperByte_def fmtLevels_def)
qed

subsection \<open>The minimum level of the log filter\<close>




subsection \<open>A broken pipe while the loop waits, and during a graceful leave\<close>

text \<open>
  While the loop waits in its first \<open>select\<close>, a \<open>SIGPIPE\<close> is written to the \<open>Ui\<close> and
  skipped. The exit code of \<open>handleSignals\<close> does not depend on what was written to
  the \<open>Ui\<close>, so any number of \<open>SIGPIPE\<close>s before the rest of a trace leave the exit
  code what the rest alone gives.
\<close>

lemma handleReload_sameButUi:
  assumes "sameButUi c c'"
  shows "(case (handleReload toUpper acquire c mconfig, handleReload toUpper acquire c' mconfig) of
            (Inl p, Inl p') \<Rightarrow> True
          | (Inr (conf, c2), Inr (conf', c2')) \<Rightarrow> conf = conf' \<and> sameButUi c2 c2'
          | _ \<Rightarrow> False)"
  using assms
  by (auto simp: sameButUi_def handleReload_def readMayaConfig_def Let_def ui_def
           split: option.splits if_splits)

lemma sighup_sameButUi:
  assumes "sameButUi c c'"
  shows "(case (sighup toUpper acquire c mconfig, sighup toUpper acquire c' mconfig) of
            (Inl p, Inl p') \<Rightarrow> True
          | (Inr c2, Inr c2') \<Rightarrow> sameButUi c2 c2'
          | _ \<Rightarrow> False)"
  using handleReload_sameButUi [OF assms, of toUpper acquire mconfig]
  by (auto simp: sighup_def sameButUi_def split: sum.splits option.splits if_splits prod.splits)

lemma gracefulLeave_sameButUi:
  assumes "sameButUi c c'" and "now c = now c'"
  shows "fst (gracefulLeave c evs) = fst (gracefulLeave c' evs)
         \<and> sameButUi (snd (gracefulLeave c evs)) (snd (gracefulLeave c' evs))"
  using assms
  by (auto simp: gracefulLeave_def sameButUi_def Let_def ui_def split: prod.splits option.splits)

lemma handleSignals_sameButUi:
  "sameButUi c c' \<Longrightarrow>
     fst (handleSignals toUpper acquire c mconfig evs) = fst (handleSignals toUpper acquire c' mconfig evs)
     \<and> sameButUi (snd (handleSignals toUpper acquire c mconfig evs))
                  (snd (handleSignals toUpper acquire c' mconfig evs))"
proof (induction evs arbitrary: c c')
  case Nil
  then show ?case by simp
next
  case (Cons e evs)
  obtain t ev where e: "e = (t, ev)" by (cases e)
  let ?m = "Output (''Caught signal: '' @ Signal_String (received ev))"
  let ?c1 = "ui ?m (c\<lparr>now := t\<rparr>)"
  let ?c1' = "ui ?m (c'\<lparr>now := t\<rparr>)"
  have s1: "sameButUi ?c1 ?c1'" and n1: "now ?c1 = now ?c1'"
    using Cons.prems by (simp_all add: sameButUi_def ui_def)
  show ?case
  proof (cases "received ev = SIGPIPE")
    case True
    then show ?thesis using Cons.IH [OF s1] by (simp add: e Let_def)
  next
    case notpipe: False
    show ?thesis
    proof (cases "received ev = SIGHUP")
      case True
      from sighup_sameButUi [OF s1, of toUpper acquire mconfig]
      show ?thesis
      proof (cases "sighup toUpper acquire ?c1 mconfig")
        case (Inl p)
        with sighup_sameButUi [OF s1, of toUpper acquire mconfig]
        obtain p' where "sighup toUpper acquire ?c1' mconfig = Inl p'"
          by (auto split: sum.splits)
        then show ?thesis using Inl True s1 by (simp add: e Let_def)
      next
        case (Inr c2)
        with sighup_sameButUi [OF s1, of toUpper acquire mconfig]
        obtain c2' where r': "sighup toUpper acquire ?c1' mconfig = Inr c2'" and s2: "sameButUi c2 c2'"
          by (auto split: sum.splits)
        from Cons.IH [OF s2] show ?thesis using True Inr r' by (simp add: e Let_def)
      qed
    next
      case False
      have h: "heap ?c1 = heap ?c1'"
        using s1 by (simp add: sameButUi_def)
      show ?thesis
        using notpipe False s1 h gracefulLeave_sameButUi [OF s1 n1, of evs]
        by (simp add: e Let_def split: option.split)
    qed
  qed
qed

lemma sigpipe_transparent_while_waiting:
  "fst (handleSignals toUpper acquire c mconfig ((t, SignalEv SIGPIPE) # evs))
     = fst (handleSignals toUpper acquire c mconfig evs)"
proof -
  have "sameButUi (ui (Output ''Caught signal: broken pipe'') (c\<lparr>now := t\<rparr>)) c"
    by (simp add: sameButUi_def ui_def)
  from handleSignals_sameButUi [OF this, of toUpper acquire mconfig evs]
  show ?thesis by (simp add: Let_def)
qed

lemma sigpipes_transparent_while_waiting:
  "list_all (\<lambda>e. snd e = SignalEv SIGPIPE) pre \<Longrightarrow>
     fst (handleSignals toUpper acquire c mconfig (pre @ evs))
       = fst (handleSignals toUpper acquire c mconfig evs)"
proof (induction pre arbitrary: c)
  case Nil
  then show ?case by simp
next
  case (Cons e pre)
  then obtain t where e: "e = (t, SignalEv SIGPIPE)" by (cases e) auto
  from Cons have "fst (handleSignals toUpper acquire c mconfig (pre @ evs))
       = fst (handleSignals toUpper acquire c mconfig evs)" by simp
  then show ?case
    using sigpipe_transparent_while_waiting [of toUpper acquire c mconfig t "pre @ evs"]
    by (simp only: e append_Cons)
qed

text \<open>
  C4. The claim: a \<open>SIGPIPE\<close> never changes the outcome, in any state of the loop, the
  race of a graceful leave included. The first \<open>select\<close> skips it; the second takes
  any signal on \<open>signalCh\<close> and returns 1. With \<open>LeaveOnInt\<close> set and a \<open>Leave\<close> that
  takes two seconds, an interrupt at time 0 followed by a \<open>SIGPIPE\<close> after one second
  makes \<open>handleSignals\<close> return 1 after one second; without the \<open>SIGPIPE\<close> it returns 0
  after two seconds.
\<close>

theorem sigpipe_during_leave_forces_exit_1:
  "handleSignals toUpper failing (exampleCommand (LeaveReturns (2 * Second) None) exampleConfig) (addr 0)
     [(0, SignalEv Interrupt), (Second, SignalEv SIGPIPE)]
   = (Exit 1,
      (exampleCommand (LeaveReturns (2 * Second) None) exampleConfig)
        \<lparr>now := Second,
          Ui := [Output ''Caught signal: interrupt'',
                 Output ''Gracefully shutting Maya server...''],
          maya := \<lparr>leave = LeaveReturns (2 * Second) None, leaveCalls = 1\<rparr>\<rparr>)
   \<and> handleSignals toUpper failing (exampleCommand (LeaveReturns (2 * Second) None) exampleConfig) (addr 0)
     [(0, SignalEv Interrupt)]
   = (Exit 0,
      (exampleCommand (LeaveReturns (2 * Second) None) exampleConfig)
        \<lparr>now := 2 * Second,
          Ui := [Output ''Caught signal: interrupt'',
                 Output ''Gracefully shutting Maya server...''],
          maya := \<lparr>leave = LeaveReturns (2 * Second) None, leaveCalls = 1\<rparr>\<rparr>)"
  by (simp add: exampleCommand_def exampleConfig_def graceful_def gracefulLeave_def
      gracefulTimeout_def Second_def ui_def Let_def)

subsection \<open>Interrupt without graceful leave\<close>

text \<open>
  C5. When the active configuration has \<open>LeaveOnInt\<close> unset, an interrupt, from the OS
  or through the shutdown channel, makes \<open>handleSignals\<close> return 1 at the time the
  interrupt arrives, whatever follows in the trace, and \<open>Leave\<close> is not called.
\<close>

theorem interrupt_without_leave_exits_1:
  assumes cfg: "load (heap c) mconfig = Some cfg"
    and flag: "\<not> LeaveOnInt cfg"
    and ev: "ev = SignalEv Interrupt \<or> ev = ShutdownEv"
  shows "handleSignals toUpper acquire c mconfig ((t, ev) # evs) =
           (Exit 1, c\<lparr>now := t, Ui := Ui c @ [Output ''Caught signal: interrupt'']\<rparr>)
         \<and> leaveCalls (maya (snd (handleSignals toUpper acquire c mconfig ((t, ev) # evs))))
             = leaveCalls (maya c)"
proof -
  have sig: "received ev = Interrupt"
    using ev by (rule received_interrupt)
  have "handleSignals toUpper acquire c mconfig ((t, ev) # evs) =
           (Exit 1, c\<lparr>now := t, Ui := Ui c @ [Output ''Caught signal: interrupt'']\<rparr>)"
    using cfg flag by (simp add: sig Let_def ui_def graceful_def)
  then show ?thesis by simp
qed

theorem interrupt_without_leave_exits_1_witness:
  "handleSignals upperASCII failing (exampleCommand LeaveHangs (exampleConfig\<lparr>LeaveOnInt := False\<rparr>))
     (addr 0) [(7, ShutdownEv), (9, SignalEv SIGTERM)]
   = (Exit 1, (exampleCommand LeaveHangs (exampleConfig\<lparr>LeaveOnInt := False\<rparr>))
        \<lparr>now := 7, Ui := [Output ''Caught signal: interrupt'']\<rparr>)"
proof -
  let ?cfg = "exampleConfig\<lparr>LeaveOnInt := False\<rparr>"
  have h1: "load (heap (exampleCommand LeaveHangs ?cfg)) (addr 0) = Some ?cfg"
    by (simp add: exampleCommand_def)
  have h2: "\<not> LeaveOnInt ?cfg" by simp
  have h3: "ShutdownEv = SignalEv Interrupt \<or> ShutdownEv = ShutdownEv" by simp
  from interrupt_without_leave_exits_1 [OF h1 h2 h3, where toUpper = upperASCII and acquire = failing and t = 7
           and evs = "[(9, SignalEv SIGTERM)]"]
  show ?thesis by (simp add: exampleCommand_def)
qed

subsection \<open>The three ways the race of a graceful leave ends\<close>

text \<open>
  C6. When the active configuration has \<open>LeaveOnInt\<close> set, an interrupt arrives at time
  \<open>t\<close>, and \<open>Leave\<close> returns \<open>nil\<close> after a duration shorter than the grace period and
  before any further signal arrives, \<open>handleSignals\<close> returns 0, at the time \<open>Leave\<close>
  returns.
\<close>

theorem leave_completes_first_exits_0:
  assumes cfg: "load (heap c) mconfig = Some cfg"
    and flag: "LeaveOnInt cfg"
    and ev: "ev = SignalEv Interrupt \<or> ev = ShutdownEv"
    and leave: "leave (maya c) = LeaveReturns d None"
    and intime: "d < gracefulTimeout"
    and nosig: "\<forall>ts. firstSignal evs = Some ts \<longrightarrow> t + d < ts"
  shows "handleSignals toUpper acquire c mconfig ((t, ev) # evs) =
           (Exit 0,
            c\<lparr>now := t + d,
              Ui := Ui c @ [Output ''Caught signal: interrupt'',
                            Output ''Gracefully shutting Maya server...''],
              maya := (maya c)\<lparr>leaveCalls := Suc (leaveCalls (maya c))\<rparr>\<rparr>)"
proof -
  have sig: "received ev = Interrupt"
    using ev by (rule received_interrupt)
  have g: "graceful (received ev) cfg"
    using flag by (simp add: sig graceful_def)
  have sel: "leaveSelect (firstSignal evs) (t + gracefulTimeout) (Some (t + d))
               = (t + d, GracefulCh)"
  proof (cases "firstSignal evs")
    case None
    then show ?thesis using intime by simp
  next
    case (Some ts)
    with nosig have "t + d < ts" by simp
    then show ?thesis using intime Some by simp
  qed
  show ?thesis
    unfolding handleSignals_graceful [OF cfg g]
    using leave sel by (simp add: gracefulLeave_def Let_def ui_def sig)
qed

theorem leave_completes_first_exits_0_witness:
  "handleSignals upperASCII failing (exampleCommand (LeaveReturns (2 * Second) None) exampleConfig) (addr 0)
     [(Second, SignalEv Interrupt), (4 * Second, SignalEv Interrupt)]
   = (Exit 0,
      (exampleCommand (LeaveReturns (2 * Second) None) exampleConfig)
        \<lparr>now := 3 * Second,
          Ui := [Output ''Caught signal: interrupt'',
                 Output ''Gracefully shutting Maya server...''],
          maya := \<lparr>leave = LeaveReturns (2 * Second) None, leaveCalls = 1\<rparr>\<rparr>)"
proof -
  let ?c = "exampleCommand (LeaveReturns (2 * Second) None) exampleConfig"
  have h1: "load (heap ?c) (addr 0) = Some exampleConfig"
    by (simp add: exampleCommand_def)
  have h2: "LeaveOnInt exampleConfig"
    by (simp add: exampleConfig_def)
  have h3: "SignalEv Interrupt = SignalEv Interrupt \<or> SignalEv Interrupt = ShutdownEv"
    by simp
  have h4: "leave (maya ?c) = LeaveReturns (2 * Second) None"
    by (simp add: exampleCommand_def)
  have h5: "2 * Second < gracefulTimeout"
    by (simp add: gracefulTimeout_def Second_def)
  have h6: "\<forall>ts. firstSignal [(4 * Second, SignalEv Interrupt)] = Some ts
              \<longrightarrow> Second + 2 * Second < ts"
    by (simp add: Second_def)
  from leave_completes_first_exits_0 [OF h1 h2 h3 h4 h5 h6, where toUpper = upperASCII and acquire = failing]
  show ?thesis by (simp add: exampleCommand_def)
qed

text \<open>
  C7. When a graceful leave has been started at time \<open>t\<close> and the next signal on
  \<open>signalCh\<close> arrives at \<open>ts\<close>, before the grace period is over and before \<open>Leave\<close>
  returns \<open>nil\<close>, \<open>handleSignals\<close> returns 1 at \<open>ts\<close>: it does not wait for the timer.
\<close>

theorem second_signal_first_exits_1:
  assumes cfg: "load (heap c) mconfig = Some cfg"
    and armed: "graceful (received ev) cfg"
    and second: "firstSignal evs = Some ts"
    and intime: "ts < t + gracefulTimeout"
    and before: "\<forall>d. leave (maya c) = LeaveReturns d None \<longrightarrow> ts < t + d"
  shows "fst (handleSignals toUpper acquire c mconfig ((t, ev) # evs)) = Exit 1
         \<and> now (snd (handleSignals toUpper acquire c mconfig ((t, ev) # evs))) = ts"
proof -
  have sel: "leaveSelect (Some ts) (t + gracefulTimeout) (closedAt t (leave (maya c)))
               = (ts, SignalCh)"
  proof (cases "closedAt t (leave (maya c))")
    case None
    then show ?thesis using intime by simp
  next
    case (Some tc)
    then obtain d where "leave (maya c) = LeaveReturns d None" and "tc = t + d"
      by (cases "(t, leave (maya c))" rule: closedAt.cases) auto
    with before have "ts < tc" by simp
    then show ?thesis using intime Some by simp
  qed
  show ?thesis
    unfolding handleSignals_graceful [OF cfg armed]
    using sel second by (simp add: gracefulLeave_def Let_def ui_def split: option.split)
qed

theorem second_signal_first_exits_1_witness:
  "fst (handleSignals upperASCII failing (exampleCommand (LeaveReturns (2 * Second) None) exampleConfig)
          (addr 0) [(0, ShutdownEv), (Second, ShutdownEv), (Second + 1, SignalEv SIGTERM)])
     = Exit 1
   \<and> now (snd (handleSignals upperASCII failing (exampleCommand (LeaveReturns (2 * Second) None) exampleConfig)
          (addr 0) [(0, ShutdownEv), (Second, ShutdownEv), (Second + 1, SignalEv SIGTERM)]))
     = Second + 1"
proof -
  let ?c = "exampleCommand (LeaveReturns (2 * Second) None) exampleConfig"
  have h1: "load (heap ?c) (addr 0) = Some exampleConfig"
    by (simp add: exampleCommand_def)
  have h2: "graceful (received ShutdownEv) exampleConfig"
    by (simp add: graceful_def exampleConfig_def)
  have h3: "firstSignal [(Second, ShutdownEv), (Second + 1, SignalEv SIGTERM)] = Some (Second + 1)"
    by simp
  have h4: "Second + 1 < 0 + gracefulTimeout"
    by (simp add: gracefulTimeout_def Second_def)
  have h5: "\<forall>d. leave (maya ?c) = LeaveReturns d None \<longrightarrow> Second + 1 < 0 + d"
    by (simp add: exampleCommand_def Second_def)
  from second_signal_first_exits_1 [OF h1 h2 h3 h4 h5, where toUpper = upperASCII and acquire = failing]
  show ?thesis .
qed

text \<open>
  C8. When a graceful leave has been started at time \<open>t\<close>, \<open>Leave\<close> never returns
  \<open>nil\<close> (it hangs, or it returns an error) and no further signal arrives,
  \<open>handleSignals\<close> returns 1 at \<open>t\<close> plus the grace period, which is five seconds. An
  error \<open>Leave\<close> returns within the grace period has been reported by then.
\<close>

theorem leave_never_completes_exits_1_at_timeout:
  assumes cfg: "load (heap c) mconfig = Some cfg"
    and armed: "graceful (received ev) cfg"
    and never: "\<forall>d. leave (maya c) \<noteq> LeaveReturns d None"
    and nosig: "firstSignal evs = None"
  shows "handleSignals toUpper acquire c mconfig ((t, ev) # evs) =
           (Exit 1,
            c\<lparr>now := t + gracefulTimeout,
              Ui := Ui c @ [Output (''Caught signal: '' @ Signal_String (received ev)),
                            Output ''Gracefully shutting Maya server...'']
                         @ (case leave (maya c) of
                              LeaveReturns d (Some err) \<Rightarrow>
                                if d < gracefulTimeout then [Error (''Error: '' @ err)] else []
                            | _ \<Rightarrow> []),
              maya := (maya c)\<lparr>leaveCalls := Suc (leaveCalls (maya c))\<rparr>\<rparr>)
         \<and> gracefulTimeout = 5 * 1000000000"
proof -
  have closed: "closedAt t (leave (maya c)) = None"
    using never by (cases "(t, leave (maya c))" rule: closedAt.cases) auto
  have "handleSignals toUpper acquire c mconfig ((t, ev) # evs) =
           (Exit 1,
            c\<lparr>now := t + gracefulTimeout,
              Ui := Ui c @ [Output (''Caught signal: '' @ Signal_String (received ev)),
                            Output ''Gracefully shutting Maya server...'']
                         @ (case leave (maya c) of
                              LeaveReturns d (Some err) \<Rightarrow>
                                if d < gracefulTimeout then [Error (''Error: '' @ err)] else []
                            | _ \<Rightarrow> []),
              maya := (maya c)\<lparr>leaveCalls := Suc (leaveCalls (maya c))\<rparr>\<rparr>)"
    unfolding handleSignals_graceful [OF cfg armed]
    using closed nosig never
    by (cases "(t, leave (maya c))" rule: leaveError.cases)
       (simp_all add: gracefulLeave_def Let_def ui_def)
  then show ?thesis by (simp add: gracefulTimeout_def Second_def)
qed

theorem leave_never_completes_exits_1_at_timeout_witness:
  "handleSignals upperASCII failing (exampleCommand (LeaveReturns Second (Some ''no leader'')) exampleConfig)
     (addr 0) [(3, SignalEv Interrupt), (4, ShutdownEv)]
   = (Exit 1,
      (exampleCommand (LeaveReturns Second (Some ''no leader'')) exampleConfig)
        \<lparr>now := 5000000003,
          Ui := [Output ''Caught signal: interrupt'',
                 Output ''Gracefully shutting Maya server...'',
                 Error ''Error: no leader''],
          maya := \<lparr>leave = LeaveReturns Second (Some ''no leader''), leaveCalls = 1\<rparr>\<rparr>)"
proof -
  let ?c = "exampleCommand (LeaveReturns Second (Some ''no leader'')) exampleConfig"
  have h1: "load (heap ?c) (addr 0) = Some exampleConfig"
    by (simp add: exampleCommand_def)
  have h2: "graceful (received (SignalEv Interrupt)) exampleConfig"
    by (simp add: graceful_def exampleConfig_def)
  have h3: "\<forall>d. leave (maya ?c) \<noteq> LeaveReturns d None"
    by (simp add: exampleCommand_def)
  have h4: "firstSignal [(4, ShutdownEv)] = None"
    by simp
  from leave_never_completes_exits_1_at_timeout [OF h1 h2 h3 h4, where toUpper = upperASCII and acquire = failing and t = 3]
  show ?thesis by (simp add: exampleCommand_def gracefulTimeout_def Second_def)
qed

subsection \<open>Reload with a failing acquisition\<close>

text \<open>
  C9. When the acquisition of a reload fails, \<open>handleReload\<close> reports the failure and
  returns the pointer it was given, and the loop goes on to wait with the same pointer
  and a store it has not changed: only the \<open>Ui\<close> and the count of acquisitions differ.
\<close>

theorem reload_failure_keeps_configuration:
  assumes failed: "acquired (acquire (reads c)) = None"
    and cfg: "load (heap c) mconfig = Some old"
  shows "handleReload toUpper acquire c mconfig =
           Inr (mconfig,
                c\<lparr>Ui := Ui c @ [Output ''Reloading Maya server configuration...'']
                          @ reported (acquire (reads c)) @ [Error ''Failed to reload config''],
                  reads := Suc (reads c)\<rparr>)
         \<and> handleSignals toUpper acquire c mconfig ((t, SignalEv SIGHUP) # evs) =
             handleSignals toUpper acquire
               (c\<lparr>now := t,
                  Ui := Ui c @ [Output ''Caught signal: hangup'',
                                Output ''Reloading Maya server configuration...'']
                          @ reported (acquire (reads c)) @ [Error ''Failed to reload config''],
                  reads := Suc (reads c)\<rparr>)
               mconfig evs"
proof -
  let ?c1 = "c\<lparr>now := t, Ui := Ui c @ [Output ''Caught signal: hangup'']\<rparr>"
  have f1: "acquired (acquire (reads ?c1)) = None"
    using failed by simp
  have l1: "load (heap ?c1) mconfig = Some old"
    using cfg by simp
  have "handleSignals toUpper acquire c mconfig ((t, SignalEv SIGHUP) # evs) =
             handleSignals toUpper acquire
               (c\<lparr>now := t,
                  Ui := Ui c @ [Output ''Caught signal: hangup'',
                                Output ''Reloading Maya server configuration...'']
                          @ reported (acquire (reads c)) @ [Error ''Failed to reload config''],
                  reads := Suc (reads c)\<rparr>)
               mconfig evs"
    unfolding handleSignals_sighup
    using sighup_failed [where toUpper = toUpper and acquire = acquire and c = ?c1, OF f1 l1] by simp
  moreover note handleReload_failed [where toUpper = toUpper and acquire = acquire and c = c, OF failed, where mconfig = mconfig]
  ultimately show ?thesis by simp
qed

theorem reload_failure_keeps_configuration_witness:
  "handleReload upperASCII failing (exampleCommand LeaveHangs exampleConfig) (addr 0) =
     Inr (addr 0,
          (exampleCommand LeaveHangs exampleConfig)
            \<lparr>Ui := [Output ''Reloading Maya server configuration...'',
                    Error ''data-dir must be given as an absolute path: got tmp'',
                    Error ''Failed to reload config''],
              reads := 1\<rparr>)
   \<and> handleSignals upperASCII failing (exampleCommand LeaveHangs exampleConfig) (addr 0)
       [(4, SignalEv SIGHUP)]
     = (Blocked,
        (exampleCommand LeaveHangs exampleConfig)
          \<lparr>now := 4,
            Ui := [Output ''Caught signal: hangup'',
                   Output ''Reloading Maya server configuration...'',
                   Error ''data-dir must be given as an absolute path: got tmp'',
                   Error ''Failed to reload config''],
            reads := 1\<rparr>)"
proof -
  let ?c = "exampleCommand LeaveHangs exampleConfig"
  have h1: "acquired (failing (reads ?c)) = None"
    by (simp add: failing_def)
  have h2: "load (heap ?c) (addr 0) = Some exampleConfig"
    by (simp add: exampleCommand_def)
  from reload_failure_keeps_configuration
         [where toUpper = upperASCII and acquire = failing and c = ?c, OF h1 h2, where t = 4 and evs = "[]"]
  show ?thesis by (simp add: failing_def exampleCommand_def)
qed

subsection \<open>The pointer \<open>handleReload\<close> returns\<close>

text \<open>
  C10. Given a configuration (a pointer that is not \<open>nil\<close>) and a command whose log
  filter is set, \<open>handleReload\<close> returns, and what it returns is not \<open>nil\<close> and points
  to a configuration, so the guard \<open>conf != nil\<close> of the loop holds and the copy
  \<open>*mconfig = *conf\<close> does not panic. When the acquisition fails the pointer returned
  is the one given, and the copy changes nothing.
\<close>

theorem handleReload_never_returns_nil:
  assumes cfg: "load (heap c) mconfig = Some old"
    and flt: "logFilter c = Some f"
  shows "\<exists>conf c' v c''.
           handleReload toUpper acquire c mconfig = Inr (conf, c')
           \<and> conf \<noteq> nil
           \<and> load (heap c') conf = Some v
           \<and> sighup toUpper acquire c mconfig = Inr c''
           \<and> load (heap c'') mconfig = Some v
           \<and> (case acquired (acquire (reads c)) of
                None \<Rightarrow> conf = mconfig \<and> c'' = c'
              | Some new \<Rightarrow> conf = addr (length (heap c)))"
proof -
  from cfg obtain a where m: "mconfig = addr a" and a: "a < length (heap c)"
    by (cases mconfig) (auto split: if_splits)
  from cfg have cfg': "load (heap c) (addr a) = Some old"
    by (simp add: m)
  show ?thesis
  proof (cases "acquired (acquire (reads c))")
    case None
    note r = handleReload_failed [where toUpper = toUpper and acquire = acquire and c = c, OF None, where mconfig = mconfig]
    note s = sighup_failed [where toUpper = toUpper and acquire = acquire and c = c, OF None cfg]
    show ?thesis
      unfolding r s using None cfg' a by (simp add: m)
  next
    case (Some new)
    show ?thesis
    proof (cases "ValidateLevelFilter (toUpper (LogLevel new)) f")
      case True
      show ?thesis
        using Some flt True cfg' a
        by (simp add: m handleReload_valid sighup_valid nth_append)
    next
      case False
      show ?thesis
        using Some flt False cfg' a
        by (simp add: m handleReload_invalid sighup_invalid nth_append)
    qed
  qed
qed

theorem handleReload_never_returns_nil_witness:
  "handleReload upperASCII failing (exampleCommand LeaveHangs exampleConfig) (addr 0) \<noteq> Inl NilDereference
   \<and> fst (projr (handleReload upperASCII failing (exampleCommand LeaveHangs exampleConfig) (addr 0))) = addr 0
   \<and> sighup upperASCII failing (exampleCommand LeaveHangs exampleConfig) (addr 0)
       = Inr (snd (projr (handleReload upperASCII failing (exampleCommand LeaveHangs exampleConfig) (addr 0))))"
proof -
  let ?c = "exampleCommand LeaveHangs exampleConfig"
  have h1: "load (heap ?c) (addr 0) = Some exampleConfig"
    by (simp add: exampleCommand_def)
  have h2: "logFilter ?c = Some exampleFilter"
    by (simp add: exampleCommand_def)
  have h3: "acquired (failing (reads ?c)) = None"
    by (simp add: failing_def)
  from handleReload_never_returns_nil [where toUpper = upperASCII and acquire = failing and c = ?c, OF h1 h2]
  show ?thesis
    using h3 by auto
qed

end
